theory Spec2Isabelle
  imports Complex_Main "HOL-Library.Word"
begin

section \<open>Strings of the source language\<close>

text \<open>
  A string of the source is a sequence of 16-bit code units. Literals of the source are
  ASCII; \<open>js\<close> turns an ASCII literal into its code units.
\<close>

type_synonym jsstring = "16 word list"

definition js :: "string \<Rightarrow> jsstring" where
  "js s = map (\<lambda>c. of_nat (of_char c)) s"

text \<open>\<^verbatim>\<open>s.startsWith(p)\<close> and \<^verbatim>\<open>s.includes(p)\<close>.\<close>

definition startsWith :: "jsstring \<Rightarrow> jsstring \<Rightarrow> bool" where
  "startsWith s p = (take (length p) s = p)"

fun includesStr :: "jsstring \<Rightarrow> jsstring \<Rightarrow> bool" where
  "includesStr [] p = (p = [])"
| "includesStr (c # cs) p = (startsWith (c # cs) p \<or> includesStr cs p)"

text \<open>
  \<^verbatim>\<open>s.trim()\<close> removes the white space and line terminator code units of the language
  from both ends.
\<close>

definition isWhiteSpace :: "16 word \<Rightarrow> bool" where
  "isWhiteSpace c =
     (c \<in> {0x09, 0x0A, 0x0B, 0x0C, 0x0D, 0x20, 0xA0, 0x1680, 0x2028, 0x2029, 0x202F,
            0x205F, 0x3000, 0xFEFF}
      \<or> (0x2000 \<le> c \<and> c \<le> 0x200A))"

definition trim :: "jsstring \<Rightarrow> jsstring" where
  "trim s = rev (dropWhile isWhiteSpace (rev (dropWhile isWhiteSpace s)))"

text \<open>
  A regular expression of the form \<^verbatim>\<open>/w1|w2|...|wn/i\<close>, every \<^verbatim>\<open>wi\<close> a word of ASCII
  letters, without the global flag: \<^verbatim>\<open>test\<close> has no state and answers whether some
  alternative occurs somewhere in the text, letters compared without case. Without the
  unicode flag, the case folding of the language never identifies a code unit of 128 or
  more with an ASCII one, so that a code unit matches the letter of a pattern exactly when
  it is that letter in lower or upper case: \<open>canonicalize\<close> folds the ASCII letters only.
\<close>

definition canonicalize :: "16 word \<Rightarrow> 16 word" where
  "canonicalize c = (if 0x61 \<le> c \<and> c \<le> 0x7A then c - 0x20 else c)"

definition regexTest :: "jsstring list \<Rightarrow> jsstring \<Rightarrow> bool" where
  "regexTest alts s =
     list_ex (\<lambda>p. includesStr (map canonicalize s) (map canonicalize p)) alts"

section \<open>Types and state\<close>

datatype role = User | Model

text \<open>A \<^verbatim>\<open>Part\<close> is inline data (payload and MIME type) or text.\<close>

datatype part = InlineData jsstring jsstring | TextPart jsstring

record message =
  role :: role
  parts :: "part list"
  timestamp :: int
  mode :: "jsstring option"

record media =
  data :: jsstring
  mimeType :: jsstring

record toolSwitches =
  googleSearch :: bool
  googleMaps :: bool
  thinking :: bool

text \<open>
  The numbers of the developer configuration are only copied into the request, never
  computed with: the model is parametric in their type \<open>'n\<close>.
\<close>

record 'n devConfig =
  systemInstruction :: jsstring
  temperature :: 'n
  topP :: 'n
  maxOutputTokens :: 'n
  model :: jsstring
  safetyThreshold :: jsstring
  tools :: toolSwitches
  forceTools :: bool

text \<open>
  The module's variables, and the item of the local storage that holds the history
  (the history it encodes, \<open>None\<close> while the item is absent). The variable that only
  selects the style classes of the page is left out, and so is the \<^verbatim>\<open>metadata\<close> property
  of a message, which is never assigned.
\<close>

record 'n globals =
  localHistory :: "message list"
  currentMedia :: "media option"
  lastResponseContent :: jsstring
  isDevMode :: bool
  devConfig :: "'n devConfig"
  storedHistory :: "message list option"

section \<open>Intent and context engine\<close>

definition INTENTS_SEARCH :: "jsstring list" where
  "INTENTS_SEARCH = map js [''search'', ''find'', ''latest'', ''news'', ''google'',
     ''weather'', ''price'', ''stock'']"

definition INTENTS_THINK :: "jsstring list" where
  "INTENTS_THINK = map js [''think'', ''reason'', ''plan'', ''complex'', ''solve'',
     ''math'', ''optimize'', ''architect'', ''code'']"

datatype tool = GoogleSearch | GoogleMaps

record safetySetting =
  category :: jsstring
  threshold :: jsstring

text \<open>
  The \<^verbatim>\<open>config\<close> object that \<^verbatim>\<open>determineConfig\<close> fills in: every property is absent
  (\<open>None\<close>) until it is assigned. \<open>cfg_thinkingConfig\<close> holds the \<^verbatim>\<open>thinkingBudget\<close>.
\<close>

record 'n genConfig =
  cfg_thinkingConfig :: "int option"
  cfg_tools :: "tool list option"
  cfg_systemInstruction :: "jsstring option"
  cfg_temperature :: "'n option"
  cfg_topP :: "'n option"
  cfg_maxOutputTokens :: "'n option"
  cfg_safetySettings :: "safetySetting list option"

definition emptyConfig :: "'n genConfig" where
  "emptyConfig = \<lparr>cfg_thinkingConfig = None, cfg_tools = None, cfg_systemInstruction = None,
     cfg_temperature = None, cfg_topP = None, cfg_maxOutputTokens = None,
     cfg_safetySettings = None\<rparr>"

record 'n descriptor =
  rd_model :: jsstring
  rd_config :: "'n genConfig"
  modeLabel :: jsstring
  visualState :: jsstring

text \<open>\<^verbatim>\<open>currentMedia?.mimeType.startsWith(p)\<close>, false while no media is staged.\<close>

definition mediaStartsWith :: "media option \<Rightarrow> jsstring \<Rightarrow> bool" where
  "mediaStartsWith m p = (case m of None \<Rightarrow> False | Some cm \<Rightarrow> startsWith (mimeType cm) p)"

definition categories :: "jsstring list" where
  "categories = map js [''HARM_CATEGORY_HARASSMENT'', ''HARM_CATEGORY_HATE_SPEECH'',
     ''HARM_CATEGORY_SEXUALLY_EXPLICIT'', ''HARM_CATEGORY_DANGEROUS_CONTENT'']"

text \<open>
  Step 1 of \<^verbatim>\<open>determineConfig\<close>: the choice of model, tools, label and visual state.
\<close>

definition selectTools :: "'n globals \<Rightarrow> jsstring \<Rightarrow> bool \<Rightarrow> 'n descriptor" where
  "selectTools s txt hasMedia =
    (let forced = (isDevMode s \<and> forceTools (devConfig s));
         useSearch = (if forced then googleSearch (tools (devConfig s))
                      else regexTest INTENTS_SEARCH txt);
         useThinking = (if forced then thinking (tools (devConfig s))
                        else regexTest INTENTS_THINK txt);
         useMaps = (if forced then googleMaps (tools (devConfig s)) else False)
     in
       if hasMedia then
         \<lparr>rd_model = js ''gemini-3-pro-preview'', rd_config = emptyConfig,
          modeLabel = (if mediaStartsWith (currentMedia s) (js ''video'')
                       then js ''Video Intelligence'' else js ''Visual Analysis''),
          visualState = js ''glow-vision''\<rparr>
       else if useThinking then
         \<lparr>rd_model = js ''gemini-3-pro-preview'',
          rd_config = emptyConfig\<lparr>cfg_thinkingConfig := Some 32768\<rparr>,
          modeLabel = js ''Deep Thinking'', visualState = js ''glow-think''\<rparr>
       else if useSearch \<or> useMaps then
         \<lparr>rd_model = js ''gemini-3-flash-preview'',
          rd_config = emptyConfig\<lparr>cfg_tools :=
            Some ((if useSearch then [GoogleSearch] else [])
                  @ (if useMaps then [GoogleMaps] else []))\<rparr>,
          modeLabel = (if useSearch then js ''Google Search'' else js ''Google Maps''),
          visualState = (if useSearch then js ''glow-search'' else js ''glow-maps'')\<rparr>
       else if isDevMode s then
         \<lparr>rd_model = model (devConfig s), rd_config = emptyConfig,
          modeLabel =
            (if model (devConfig s) = js ''gemini-3-pro-preview'' then js ''Gemini Pro''
             else if includesStr (model (devConfig s)) (js ''lite'') then js ''Gemini Lite''
             else js ''Gemini Custom''),
          visualState = js ''glow-active''\<rparr>
       else
         \<lparr>rd_model = js ''gemini-2.5-flash-lite'', rd_config = emptyConfig,
          modeLabel = js ''Gemini Flash Lite'', visualState = js ''glow-active''\<rparr>)"

text \<open>Step 2: the overrides of the developer mode.\<close>

definition devOverrides :: "'n devConfig \<Rightarrow> 'n descriptor \<Rightarrow> 'n descriptor" where
  "devOverrides dc d =
    (let c0 = rd_config d;
         c1 = (if trim (systemInstruction dc) \<noteq> []
               then c0\<lparr>cfg_systemInstruction := Some (systemInstruction dc)\<rparr> else c0);
         c2 = c1\<lparr>cfg_temperature := Some (temperature dc), cfg_topP := Some (topP dc)\<rparr>;
         c3 = (if cfg_thinkingConfig c2 = None
               then c2\<lparr>cfg_maxOutputTokens := Some (maxOutputTokens dc)\<rparr> else c2);
         c4 = c3\<lparr>cfg_safetySettings :=
                Some (map (\<lambda>cat. \<lparr>category = cat, threshold = safetyThreshold dc\<rparr>)
                        categories)\<rparr>
     in d\<lparr>rd_config := c4, modeLabel := modeLabel d @ js '' (Dev)''\<rparr>)"

definition determineConfig :: "'n globals \<Rightarrow> jsstring \<Rightarrow> bool \<Rightarrow> 'n descriptor" where
  "determineConfig s txt hasMedia =
    (let d = selectTools s txt hasMedia
     in if isDevMode s then devOverrides (devConfig s) d else d)"

text \<open>
  \<^verbatim>\<open>getContextualActions\<close>. It reads \<^verbatim>\<open>currentMedia\<close> and \<^verbatim>\<open>lastResponseContent\<close>
  besides its arguments; an absent \<^verbatim>\<open>lastMsgRole\<close> is \<open>None\<close>.
\<close>

record action =
  label :: jsstring
  prompt :: jsstring
  icon :: jsstring

definition mkAction :: "string \<Rightarrow> string \<Rightarrow> string \<Rightarrow> action" where
  "mkAction l p i = \<lparr>label = js l, prompt = js p, icon = js i\<rparr>"

definition getContextualActions ::
  "'n globals \<Rightarrow> jsstring \<Rightarrow> bool \<Rightarrow> role option \<Rightarrow> action list" where
  "getContextualActions s txt hasMedia lastMsgRole =
    (if hasMedia then
       [mkAction ''Describe'' ''Describe this in detail.'' ''visibility'']
       @ (if mediaStartsWith (currentMedia s) (js ''image'')
          then [mkAction ''Extract Text'' ''Extract all text from this image.'' ''text_fields'']
          else [])
       @ [mkAction ''Analyze'' ''Analyze the key elements.'' ''analytics'']
     else if length txt > 0 then
       (let actions =
          (if includesStr txt (js ''code'') \<or> includesStr txt (js ''function'')
              \<or> includesStr txt (js ''const '')
           then [mkAction ''Fix Bugs'' ''Find and fix bugs in this code.'' ''bug_report'',
                 mkAction ''Explain'' ''Explain this code step by step.'' ''description'']
           else if regexTest INTENTS_SEARCH txt
           then [mkAction ''Deep Dive'' ''Give me a detailed deep dive on this.''
                   ''scuba_diving'',
                 mkAction ''Fact Check'' ''Verify this information.'' ''fact_check'']
           else if regexTest INTENTS_THINK txt
           then [mkAction ''Break Down'' ''Break this problem down step-by-step.'' ''segment'']
           else [])
        in if length actions = 0
           then [mkAction ''Improve'' ''Improve this writing.'' ''edit_note'',
                 mkAction ''Creative Twist'' ''Add a creative twist.'' ''auto_awesome'',
                 mkAction ''Expand'' ''Expand on this idea.'' ''open_in_full'']
           else actions)
     else
       (let lrc = lastResponseContent s;
            actions =
              (if lastMsgRole = Some Model \<and> lrc \<noteq> [] then
                 (if includesStr lrc (js ''```'')
                  then [mkAction ''Refactor'' ''Refactor this code for better performance.''
                          ''build'',
                        mkAction ''Add Comments'' ''Add detailed comments to the code.''
                          ''comment'']
                  else if length lrc > 500
                  then [mkAction ''Summarize'' ''Summarize the above in 3 bullet points.''
                          ''short_text'']
                  else [])
                 @ [mkAction ''Verify'' ''Are you sure? Verify this information.''
                      ''check_circle'']
               else []);
            actions' =
              (if length actions = 0
               then [mkAction ''Brainstorm'' ''Help me brainstorm creative ideas.''
                       ''lightbulb'',
                     mkAction ''Plan'' ''Help me create a structured plan.''
                       ''calendar_today'']
               else actions)
        in take 4 actions'))"

section \<open>Grounding sources\<close>

text \<open>
  The citation metadata is untyped in the source. A source object is read through its
  properties \<^verbatim>\<open>uri\<close>, \<^verbatim>\<open>title\<close> and \<^verbatim>\<open>maps\<close>, each of which may be absent; \<open>src_maps\<close>
  says whether the object itself has a truthy property \<^verbatim>\<open>maps\<close>. A chunk has a
  \<^verbatim>\<open>web\<close> source, a \<^verbatim>\<open>maps\<close> source, both or neither.
\<close>

record source =
  uri :: "jsstring option"
  title :: "jsstring option"
  src_maps :: bool

record groundingChunk =
  web :: "source option"
  maps :: "source option"

record groundingMetadata =
  groundingChunks :: "groundingChunk list option"

text \<open>A rendered source card: link target, tooltip, icon name and title text.\<close>

record card =
  href :: "jsstring option"
  tooltip :: jsstring
  cardIcon :: jsstring
  cardTitle :: jsstring

text \<open>\<^verbatim>\<open>t || d\<close> for a string \<open>t\<close> that may be absent: the empty string is falsy.\<close>

definition orElse :: "jsstring option \<Rightarrow> jsstring \<Rightarrow> jsstring" where
  "orElse t d = (case t of None \<Rightarrow> d | Some x \<Rightarrow> if x \<noteq> [] then x else d)"

definition sourceCard :: "source \<Rightarrow> card" where
  "sourceCard s =
     \<lparr>href = uri s,
      tooltip = js ''Open source: '' @ orElse (title s) (js ''External link''),
      cardIcon = (if src_maps s then js ''place'' else js ''public''),
      cardTitle = orElse (title s) (case uri s of None \<Rightarrow> js ''undefined'' | Some u \<Rightarrow> u)\<rparr>"

text \<open>
  What \<^verbatim>\<open>renderGroundingSources\<close> finds and leaves in the message's content element:
  no sources container, or a sources container with its grid of cards (\<open>None\<close> when the
  container has no grid element).
\<close>

datatype container = NoSources | Sources "card list option"

definition renderGroundingSources :: "groundingMetadata \<Rightarrow> container \<Rightarrow> container" where
  "renderGroundingSources metadata c =
    (let sourcesContainer = (case c of NoSources \<Rightarrow> Some [] | Sources g \<Rightarrow> g)
     in case sourcesContainer of
          None \<Rightarrow> Sources None
        | Some grid \<Rightarrow>
            (let chunks = (case groundingChunks metadata of None \<Rightarrow> [] | Some cs \<Rightarrow> cs);
                 webSources = List.map_filter web chunks;
                 mapSources = List.map_filter maps chunks
             in Sources (Some (map sourceCard (webSources @ mapSources)))))"

definition gridOf :: "container \<Rightarrow> card list" where
  "gridOf c = (case c of Sources (Some g) \<Rightarrow> g | _ \<Rightarrow> [])"

section \<open>Sending a message\<close>

text \<open>
  \<^verbatim>\<open>saveMessage\<close> appends to the history and writes the history to the local storage;
  a write that the storage refuses (\<open>ok\<close> false) throws and is swallowed. The effects are
  recorded as events, in the order they happen.
\<close>

datatype payload = MessageText jsstring | MessageParts "part list"

record 'n request =
  req_model :: jsstring
  req_history :: "(role \<times> part list) list"
  req_config :: "'n genConfig"
  req_message :: payload

datatype 'n event =
    StoreAppend message
  | StorageWrite "message list" bool
  | BackendCall "'n request"

definition saveMessage ::
  "(message list \<Rightarrow> bool) \<Rightarrow> message \<Rightarrow> 'n globals \<Rightarrow> 'n globals \<times> 'n event list" where
  "saveMessage ok msg s =
    (let h = localHistory s @ [msg];
         s1 = s\<lparr>localHistory := h\<rparr>
     in if ok h then (s1\<lparr>storedHistory := Some h\<rparr>, [StoreAppend msg, StorageWrite h True])
        else (s1, [StoreAppend msg, StorageWrite h False]))"

text \<open>
  A fragment of the stream: its text (absent text is concatenated as \<^verbatim>\<open>undefined\<close>) and
  its grounding metadata. The \<^verbatim>\<open>try\<close> block ends in one of two ways: the stream is
  exhausted after the given fragments, or something throws (creating the chat, sending,
  the stream, rendering a fragment) after the given fragments.
\<close>

record chunk =
  chunk_text :: "jsstring option"
  chunk_grounding :: "groundingMetadata option"

datatype outcome = Completed "chunk list" | Failed "chunk list"

text \<open>
  What \<^verbatim>\<open>handleSend\<close> takes from outside: the input field, the clock at the two
  \<^verbatim>\<open>Date.now()\<close> calls, whether the storage accepts a value, and the backend.
\<close>

record 'n env =
  inputValue :: jsstring
  nowUser :: int
  nowModel :: int
  setItemOk :: "message list \<Rightarrow> bool"
  backend :: "'n request \<Rightarrow> outcome"

definition buildParts :: "media option \<Rightarrow> jsstring \<Rightarrow> part list" where
  "buildParts cm txt =
     (case cm of None \<Rightarrow> [] | Some m \<Rightarrow> [InlineData (data m) (mimeType m)])
     @ (if txt \<noteq> [] then [TextPart txt] else [])"

definition userMsg :: "'n env \<Rightarrow> 'n globals \<Rightarrow> message" where
  "userMsg e s = \<lparr>role = User, parts = buildParts (currentMedia s) (trim (inputValue e)),
     timestamp = nowUser e, mode = None\<rparr>"

definition messagePayload :: "part list \<Rightarrow> payload" where
  "messagePayload ps =
     (case ps of [TextPart t] \<Rightarrow> if t \<noteq> [] then MessageText t else MessageParts ps
      | _ \<Rightarrow> MessageParts ps)"

definition chunkText :: "chunk \<Rightarrow> jsstring" where
  "chunkText ch = (case chunk_text ch of None \<Rightarrow> js ''undefined'' | Some t \<Rightarrow> t)"

text \<open>
  \<^verbatim>\<open>handleSend\<close>, without the changes to the page. The descriptor is computed while the
  media is still staged; the history given to the backend is read after the user turn
  has been saved.
\<close>

definition handleSend :: "'n env \<Rightarrow> 'n globals \<Rightarrow> 'n globals \<times> 'n event list" where
  "handleSend e s =
    (let txt = trim (inputValue e)
     in if txt = [] \<and> currentMedia s = None then (s, [])
        else
          (let d = determineConfig s txt (currentMedia s \<noteq> None);
               ps = buildParts (currentMedia s) txt;
               (s2, ev1) = saveMessage (setItemOk e) (userMsg e s) (s\<lparr>currentMedia := None\<rparr>);
               req = \<lparr>req_model = rd_model d,
                      req_history = map (\<lambda>m. (role m, parts m)) (localHistory s2),
                      req_config = rd_config d,
                      req_message = messagePayload ps\<rparr>
           in case backend e req of
                Failed cs \<Rightarrow> (s2, ev1 @ [BackendCall req])
              | Completed cs \<Rightarrow>
                  (let fullResponseText = concat (map chunkText cs);
                       (s4, ev2) = saveMessage (setItemOk e)
                          \<lparr>role = Model, parts = [TextPart fullResponseText],
                           timestamp = nowModel e, mode = Some (modeLabel d)\<rparr>
                          (s2\<lparr>lastResponseContent := fullResponseText\<rparr>)
                   in (s4, ev1 @ [BackendCall req] @ ev2))))"

text \<open>
  What ties \<^verbatim>\<open>lastResponseContent\<close> to the history: when the last turn is a model turn,
  its only part is the text of \<^verbatim>\<open>lastResponseContent\<close>.
\<close>

definition lastTurnInv :: "'n globals \<Rightarrow> bool" where
  "lastTurnInv s =
     (localHistory s = [] \<or> role (last (localHistory s)) = User
      \<or> parts (last (localHistory s)) = [TextPart (lastResponseContent s)])"

section \<open>Initial values\<close>

definition initialDevConfig :: "real devConfig" where
  "initialDevConfig = \<lparr>systemInstruction = [], temperature = 1.0, topP = 0.95,
     maxOutputTokens = 2048, model = js ''gemini-2.5-flash-lite'',
     safetyThreshold = js ''BLOCK_MEDIUM_AND_ABOVE'',
     tools = \<lparr>googleSearch = False, googleMaps = False, thinking = False\<rparr>,
     forceTools = False\<rparr>"

definition initialState :: "real globals" where
  "initialState = \<lparr>localHistory = [], currentMedia = None, lastResponseContent = [],
     isDevMode = False, devConfig = initialDevConfig, storedHistory = None\<rparr>"

section \<open>Example states\<close>

definition devState :: "real globals" where
  "devState = initialState\<lparr>isDevMode := True\<rparr>"

definition forcedState :: "real globals" where
  "forcedState = initialState\<lparr>isDevMode := True,
     devConfig := initialDevConfig\<lparr>forceTools := True\<rparr>\<rparr>"

definition videoState :: "real globals" where
  "videoState = initialState\<lparr>currentMedia :=
     Some \<lparr>data = js ''AAAA'', mimeType = js ''video/mp4''\<rparr>\<rparr>"

definition imageState :: "real globals" where
  "imageState = initialState\<lparr>currentMedia :=
     Some \<lparr>data = js ''AAAA'', mimeType = js ''image/png''\<rparr>\<rparr>"

definition webmState :: "real globals" where
  "webmState = initialState\<lparr>currentMedia :=
     Some \<lparr>data = js ''BBBB'', mimeType = js ''video/webm''\<rparr>,
     lastResponseContent := js ''ok''\<rparr>"

definition replyState :: "real globals" where
  "replyState = initialState\<lparr>lastResponseContent := js ''```x```''\<rparr>"

definition fenceState :: "real globals" where
  "fenceState = imageState\<lparr>lastResponseContent := js ''```x```''\<rparr>"

section \<open>Example metadata, environments and requests\<close>

definition webA :: groundingChunk where
  "webA = \<lparr>web = Some \<lparr>uri = Some (js ''https://a.example''), title = Some (js ''A''),
     src_maps = False\<rparr>, maps = None\<rparr>"

definition placeB :: groundingChunk where
  "placeB = \<lparr>web = None, maps = Some \<lparr>uri = Some (js ''https://maps.example/b''),
     title = Some (js ''B''), src_maps = False\<rparr>\<rparr>"

definition hiMsg :: message where
  "hiMsg = \<lparr>role = User, parts = [TextPart (js ''hi'')], timestamp = 1, mode = None\<rparr>"

definition hiRequest :: "real request" where
  "hiRequest = \<lparr>req_model = js ''gemini-2.5-flash-lite'',
     req_history = [(User, [TextPart (js ''hi'')])], req_config = emptyConfig,
     req_message = MessageText (js ''hi'')\<rparr>"

text \<open>The storage refuses every write; the backend fails at once.\<close>

definition envRefused :: "real env" where
  "envRefused = \<lparr>inputValue = js '' hi '', nowUser = 1, nowModel = 2,
     setItemOk = (\<lambda>h. False), backend = (\<lambda>r. Failed [])\<rparr>"

text \<open>The storage accepts every write; the stream fails after one fragment.\<close>

definition envFailing :: "real env" where
  "envFailing = \<lparr>inputValue = js '' hi '', nowUser = 1, nowModel = 2,
     setItemOk = (\<lambda>h. True),
     backend = (\<lambda>r. Failed [\<lparr>chunk_text = Some (js ''par''), chunk_grounding = None\<rparr>])\<rparr>"

section \<open>Properties of the request configurator\<close>

lemma search_news: "regexTest INTENTS_SEARCH (js ''search news'')"
  by code_simp

lemma think_architect:
  "regexTest INTENTS_THINK (js ''architect a scalable backend system'')"
  by code_simp

lemma think_plan: "regexTest INTENTS_THINK (js ''plan'')"
  by code_simp

text \<open>
  C1. Whenever the descriptor of \<open>determineConfig\<close> sets the thinking budget, its
  configuration sets no cap on the output tokens, for every state, text and media flag.
\<close>

theorem determineConfig_thinking_no_maxOutputTokens:
  "cfg_thinkingConfig (rd_config (determineConfig s txt hasMedia)) \<noteq> None
    \<longrightarrow> cfg_maxOutputTokens (rd_config (determineConfig s txt hasMedia)) = None"
  by (simp add: determineConfig_def selectTools_def devOverrides_def emptyConfig_def Let_def)

text \<open>
  C1, at an input: developer mode on, the text \<^verbatim>\<open>plan\<close>. The budget is set, the other
  overrides of the developer mode are applied, the cap is left out.
\<close>

theorem determineConfig_thinking_no_maxOutputTokens_witness:
  "cfg_thinkingConfig (rd_config (determineConfig devState (js ''plan'') False)) = Some 32768
   \<and> cfg_maxOutputTokens (rd_config (determineConfig devState (js ''plan'') False)) = None
   \<and> cfg_temperature (rd_config (determineConfig devState (js ''plan'') False)) = Some 1"
proof -
  have h: "cfg_thinkingConfig (rd_config (determineConfig devState (js ''plan'') False))
            = Some 32768"
    and t: "cfg_temperature (rd_config (determineConfig devState (js ''plan'') False))
            = Some 1"
    using think_plan
    by (simp_all add: determineConfig_def selectTools_def devOverrides_def emptyConfig_def
        Let_def devState_def initialState_def initialDevConfig_def)
  from h have "cfg_thinkingConfig (rd_config (determineConfig devState (js ''plan'') False))
      \<noteq> None"
    by blast
  with determineConfig_thinking_no_maxOutputTokens [of devState "js ''plan''" False] h t
  show ?thesis by blast
qed

text \<open>
  C2, as stated, fails: with the same text, the same media flag, the same developer mode
  and the same developer configuration, a staged video and a staged image give two
  different descriptors, since the label is read from the staged media's MIME type.
\<close>

theorem determineConfig_reads_media_type:
  "isDevMode videoState = isDevMode imageState
   \<and> devConfig videoState = devConfig imageState
   \<and> modeLabel (determineConfig videoState (js ''hi'') True) = js ''Video Intelligence''
   \<and> modeLabel (determineConfig imageState (js ''hi'') True) = js ''Visual Analysis''
   \<and> determineConfig videoState (js ''hi'') True \<noteq> determineConfig imageState (js ''hi'') True"
  by (simp add: determineConfig_def selectTools_def Let_def videoState_def imageState_def
      initialState_def mediaStartsWith_def startsWith_def js_def)

text \<open>
  C2, amended. The descriptor is a function of the text, the media flag, the developer
  mode, the developer configuration and, when the media flag is set, of whether the MIME
  type of the staged media starts with \<^verbatim>\<open>video\<close>: two states that agree on these give the
  same descriptor (model, configuration, label and visual state), whatever else differs.
\<close>

theorem determineConfig_pure:
  assumes "isDevMode s1 = isDevMode s2" and "devConfig s1 = devConfig s2"
    and "hasMedia \<longrightarrow> mediaStartsWith (currentMedia s1) (js ''video'')
                      = mediaStartsWith (currentMedia s2) (js ''video'')"
  shows "determineConfig s1 txt hasMedia = determineConfig s2 txt hasMedia"
  using assms
  by (simp add: determineConfig_def selectTools_def Let_def)

text \<open>
  C2, amended, at an input: two different states, each with a staged video, of different
  MIME types and payloads.
\<close>

theorem determineConfig_pure_witness:
  "determineConfig videoState (js ''hi'') True = determineConfig webmState (js ''hi'') True
   \<and> videoState \<noteq> webmState"
proof -
  have h: "isDevMode videoState = isDevMode webmState"
    "devConfig videoState = devConfig webmState"
    "True \<longrightarrow> mediaStartsWith (currentMedia videoState) (js ''video'')
                      = mediaStartsWith (currentMedia webmState) (js ''video'')"
    by (simp_all add: videoState_def webmState_def initialState_def mediaStartsWith_def
        startsWith_def js_def)
  have d: "videoState \<noteq> webmState"
    by (simp add: videoState_def webmState_def initialState_def js_def)
  from determineConfig_pure [OF h] d show ?thesis by blast
qed

text \<open>
  C4. Developer mode on, forced tools on, the three tool switches off: for the text
  \<^verbatim>\<open>search news\<close> without media the descriptor has no tools and no thinking budget,
  although the text matches the search vocabulary; the model is the configured one.
\<close>

theorem forced_tools_off_search_news:
  assumes "isDevMode s" and "forceTools (devConfig s)"
    and "\<not> googleSearch (tools (devConfig s))"
    and "\<not> googleMaps (tools (devConfig s))"
    and "\<not> thinking (tools (devConfig s))"
  shows "regexTest INTENTS_SEARCH (js ''search news'')
    \<and> cfg_tools (rd_config (determineConfig s (js ''search news'') False)) = None
    \<and> cfg_thinkingConfig (rd_config (determineConfig s (js ''search news'') False)) = None
    \<and> rd_model (determineConfig s (js ''search news'') False) = model (devConfig s)"
  using assms search_news
  by (simp add: determineConfig_def selectTools_def devOverrides_def emptyConfig_def Let_def)

text \<open>C4, at the initial configuration with developer mode and forced tools on.\<close>

theorem forced_tools_off_search_news_witness:
  "isDevMode forcedState \<and> forceTools (devConfig forcedState)
   \<and> cfg_tools (rd_config (determineConfig forcedState (js ''search news'') False)) = None
   \<and> cfg_thinkingConfig (rd_config (determineConfig forcedState (js ''search news'') False))
       = None"
proof -
  have h: "isDevMode forcedState" "forceTools (devConfig forcedState)"
    "\<not> googleSearch (tools (devConfig forcedState))"
    "\<not> googleMaps (tools (devConfig forcedState))"
    "\<not> thinking (tools (devConfig forcedState))"
    by (simp_all add: forcedState_def initialState_def initialDevConfig_def)
  from forced_tools_off_search_news [OF h] h show ?thesis by blast
qed

text \<open>
  C5. Developer mode off: for the text \<^verbatim>\<open>architect a scalable backend system\<close> without
  media the descriptor selects \<^verbatim>\<open>gemini-3-pro-preview\<close>, sets the thinking budget and has
  no cap on the output tokens.
\<close>

theorem architect_deep_thinking:
  assumes "\<not> isDevMode s"
  shows "rd_model (determineConfig s (js ''architect a scalable backend system'') False)
           = js ''gemini-3-pro-preview''
    \<and> cfg_thinkingConfig (rd_config
          (determineConfig s (js ''architect a scalable backend system'') False)) = Some 32768
    \<and> cfg_maxOutputTokens (rd_config
          (determineConfig s (js ''architect a scalable backend system'') False)) = None"
  using assms think_architect
  by (simp add: determineConfig_def selectTools_def emptyConfig_def Let_def)

text \<open>C5, at the initial state.\<close>

theorem architect_deep_thinking_witness:
  "\<not> isDevMode initialState
   \<and> rd_model (determineConfig initialState
        (js ''architect a scalable backend system'') False) = js ''gemini-3-pro-preview''
   \<and> cfg_thinkingConfig (rd_config (determineConfig initialState
        (js ''architect a scalable backend system'') False)) = Some 32768
   \<and> cfg_maxOutputTokens (rd_config (determineConfig initialState
        (js ''architect a scalable backend system'') False)) = None"
proof -
  have h: "\<not> isDevMode initialState" by (simp add: initialState_def)
  from architect_deep_thinking [OF h] h show ?thesis by blast
qed

text \<open>
  C9. When the configuration of a descriptor carries safety settings, they are the four
  harm categories, in the order harassment, hate speech, sexually explicit, dangerous
  content, each with the threshold of the developer configuration.
\<close>

theorem safetySettings_single_threshold:
  assumes "cfg_safetySettings (rd_config (determineConfig s txt hasMedia)) = Some ss"
  shows "map category ss = map js [''HARM_CATEGORY_HARASSMENT'',
            ''HARM_CATEGORY_HATE_SPEECH'', ''HARM_CATEGORY_SEXUALLY_EXPLICIT'',
            ''HARM_CATEGORY_DANGEROUS_CONTENT'']
    \<and> map threshold ss = [safetyThreshold (devConfig s), safetyThreshold (devConfig s),
          safetyThreshold (devConfig s), safetyThreshold (devConfig s)]"
  using assms
  by (auto simp add: determineConfig_def selectTools_def devOverrides_def emptyConfig_def
      Let_def categories_def split: if_splits)

text \<open>C9, at the initial configuration with developer mode on.\<close>

theorem safetySettings_single_threshold_witness:
  "cfg_safetySettings (rd_config (determineConfig devState (js ''hello'') False)) =
     Some (map (\<lambda>c. \<lparr>category = c, threshold = js ''BLOCK_MEDIUM_AND_ABOVE''\<rparr>) categories)
   \<and> map threshold
        (map (\<lambda>c. \<lparr>category = c, threshold = js ''BLOCK_MEDIUM_AND_ABOVE''\<rparr>) categories)
      = [safetyThreshold (devConfig devState), safetyThreshold (devConfig devState),
          safetyThreshold (devConfig devState), safetyThreshold (devConfig devState)]"
proof -
  have h: "cfg_safetySettings (rd_config (determineConfig devState (js ''hello'') False)) =
     Some (map (\<lambda>c. \<lparr>category = c, threshold = js ''BLOCK_MEDIUM_AND_ABOVE''\<rparr>) categories)"
    by (simp add: determineConfig_def devOverrides_def Let_def devState_def initialState_def
        initialDevConfig_def)
  from safetySettings_single_threshold [OF h] h show ?thesis by blast
qed

section \<open>Properties of the contextual action suggester\<close>

text \<open>
  C10. For every state, text, media flag and last role, \<open>getContextualActions\<close> returns
  at least one and at most four actions.
\<close>

theorem getContextualActions_length:
  "1 \<le> length (getContextualActions s txt hasMedia lastMsgRole)
   \<and> length (getContextualActions s txt hasMedia lastMsgRole) \<le> 4"
  by (simp add: getContextualActions_def Let_def)

lemma fence_nonempty: "includesStr t (js ''```'') \<Longrightarrow> t \<noteq> []"
  by (auto simp add: js_def)

text \<open>
  C7, as stated, fails twice. The text \<^verbatim>\<open>```\<close> is not empty and contains the fence, and
  the suggestions are Improve, Creative Twist and Expand: Fix Bugs is tied to the words
  \<^verbatim>\<open>code\<close>, \<^verbatim>\<open>function\<close> and \<^verbatim>\<open>const \<close>, not to the fence. With an image staged, an empty
  text and a last model response that contains a fence, the suggestions are those of the
  media branch, without Refactor.
\<close>

theorem fence_without_fix_bugs:
  "js ''```'' \<noteq> [] \<and> includesStr (js ''```'') (js ''```'')
   \<and> map label (getContextualActions initialState (js ''```'') False None)
       = map js [''Improve'', ''Creative Twist'', ''Expand'']
   \<and> includesStr (lastResponseContent fenceState) (js ''```'')
   \<and> map label (getContextualActions fenceState [] True (Some Model))
       = map js [''Describe'', ''Extract Text'', ''Analyze'']"
  by code_simp

text \<open>
  C7, amended. With no media staged: a text that is not empty and contains \<^verbatim>\<open>code\<close>,
  \<^verbatim>\<open>function\<close> or \<^verbatim>\<open>const \<close> gets a Fix Bugs suggestion; an empty text, after a model turn
  whose response contains a fence, gets a Refactor suggestion.
\<close>

theorem code_words_fix_bugs_fence_refactor:
  assumes "\<not> hasMedia"
  shows "(txt \<noteq> [] \<and> (includesStr txt (js ''code'') \<or> includesStr txt (js ''function'')
            \<or> includesStr txt (js ''const ''))
          \<longrightarrow> js ''Fix Bugs'' \<in> label ` set (getContextualActions s txt hasMedia lastMsgRole))
    \<and> (txt = [] \<and> lastMsgRole = Some Model
          \<and> includesStr (lastResponseContent s) (js ''```'')
          \<longrightarrow> js ''Refactor'' \<in> label ` set (getContextualActions s txt hasMedia lastMsgRole))"
  using assms fence_nonempty [of "lastResponseContent s"]
  by (auto simp add: getContextualActions_def Let_def mkAction_def)

text \<open>
  C7, amended, at two inputs: the text \<^verbatim>\<open>const x = 1\<close>, and an empty text after a model
  response with a fenced block.
\<close>

theorem code_words_fix_bugs_fence_refactor_witness:
  "js ''Fix Bugs''
     \<in> label ` set (getContextualActions initialState (js ''const x = 1'') False None)
   \<and> js ''Refactor'' \<in> label ` set (getContextualActions replyState [] False (Some Model))"
proof -
  have m: "\<not> False" by simp
  have a: "js ''const x = 1'' \<noteq> []
      \<and> (includesStr (js ''const x = 1'') (js ''code'')
         \<or> includesStr (js ''const x = 1'') (js ''function'')
         \<or> includesStr (js ''const x = 1'') (js ''const ''))"
    by code_simp
  have b: "([] :: jsstring) = [] \<and> Some Model = Some Model
      \<and> includesStr (lastResponseContent replyState) (js ''```'')"
    by code_simp
  from code_words_fix_bugs_fence_refactor [OF m, of "js ''const x = 1''" initialState None] a
    code_words_fix_bugs_fence_refactor [OF m, of "[]" replyState "Some Model"] b
  show ?thesis by blast
qed

section \<open>Properties of the grounding extractor\<close>

text \<open>
  C8. Rendering the same metadata twice leaves what rendering it once leaves, and
  rendering a second metadata after a first leaves what rendering the second alone
  leaves: the grid is replaced, never appended to.
\<close>

theorem renderGroundingSources_idempotent:
  "renderGroundingSources md (renderGroundingSources md c) = renderGroundingSources md c
   \<and> renderGroundingSources md2 (renderGroundingSources md1 c)
       = renderGroundingSources md2 c"
  by (cases c) (simp_all add: renderGroundingSources_def Let_def split: option.splits)

text \<open>
  C6, as stated, fails: a metadata that lists the same web source twice is rendered as
  two equal cards. Nothing in \<open>renderGroundingSources\<close> removes repeated entries.
\<close>

theorem repeated_source_rendered_twice:
  "gridOf (renderGroundingSources \<lparr>groundingChunks = Some [webA, webA]\<rparr> NoSources)
     = [sourceCard \<lparr>uri = Some (js ''https://a.example''), title = Some (js ''A''),
          src_maps = False\<rparr>,
        sourceCard \<lparr>uri = Some (js ''https://a.example''), title = Some (js ''A''),
          src_maps = False\<rparr>]
   \<and> \<not> distinct (gridOf (renderGroundingSources
          \<lparr>groundingChunks = Some [webA, webA]\<rparr> NoSources))"
  by (simp add: renderGroundingSources_def Let_def gridOf_def List.map_filter_def webA_def)

text \<open>
  C6, amended. The grid holds one card for every chunk with a web source, in the order
  of the input, then one card for every chunk with a place source, in the order of the
  input, whether the content element had a grid before or not; repeated entries are kept.
\<close>

theorem renderGroundingSources_cards:
  "gridOf (renderGroundingSources \<lparr>groundingChunks = Some cs\<rparr> NoSources)
     = map sourceCard (List.map_filter web cs) @ map sourceCard (List.map_filter maps cs)
   \<and> gridOf (renderGroundingSources \<lparr>groundingChunks = Some cs\<rparr> (Sources (Some g)))
     = map sourceCard (List.map_filter web cs) @ map sourceCard (List.map_filter maps cs)
   \<and> length (gridOf (renderGroundingSources \<lparr>groundingChunks = Some cs\<rparr> NoSources))
     = length (filter (\<lambda>c. web c \<noteq> None) cs) + length (filter (\<lambda>c. maps c \<noteq> None) cs)"
  by (simp add: renderGroundingSources_def Let_def gridOf_def List.map_filter_def)

text \<open>
  The icon of a card is read from the property \<^verbatim>\<open>maps\<close> of the source object, not of the
  chunk: a place source whose object has no such property is given the icon \<^verbatim>\<open>public\<close>.
\<close>

lemma place_source_icon_public:
  "map cardIcon (gridOf (renderGroundingSources \<lparr>groundingChunks = Some [placeB]\<rparr> NoSources))
     = [js ''public'']"
  by (simp add: renderGroundingSources_def Let_def gridOf_def List.map_filter_def placeB_def
      sourceCard_def)

section \<open>Properties of sending a message\<close>

lemma trim_hi: "trim (js '' hi '') = js ''hi''"
  by (simp add: trim_def js_def isWhiteSpace_def)

lemma hi_no_intent:
  "\<not> regexTest INTENTS_SEARCH (js ''hi'')" "\<not> regexTest INTENTS_THINK (js ''hi'')"
  by code_simp+

lemma hi_ne: "js ''hi'' \<noteq> []"
  by (simp add: js_def)

text \<open>
  C3, as stated, fails where the storage refuses the write: the user turn is in the
  history, the write that comes before the backend call is refused and swallowed, the
  backend call is issued all the same, and nothing has been persisted.
\<close>

theorem backend_called_without_persisted_turn:
  "handleSend envRefused initialState
     = (initialState\<lparr>localHistory := [hiMsg]\<rparr>,
        [StoreAppend hiMsg, StorageWrite [hiMsg] False, BackendCall hiRequest])
   \<and> storedHistory (fst (handleSend envRefused initialState)) = None"
  using hi_ne hi_no_intent
  by (simp add: handleSend_def Let_def envRefused_def trim_hi initialState_def saveMessage_def
      userMsg_def buildParts_def messagePayload_def hiMsg_def hiRequest_def determineConfig_def
      selectTools_def)

text \<open>
  C3, amended. When there is a text or a staged media, \<open>handleSend\<close> appends the user
  turn to the history and attempts the write of the history to the storage, and only
  then calls the backend, with a history that holds the user turn; the write takes effect
  exactly when the storage accepts it. The backend is called once. When the call or the
  stream fails, nothing more happens: the history is the old one followed by the user
  turn, without a model turn, and the storage holds that history if it accepted the write
  and is unchanged otherwise.
\<close>

theorem handleSend_user_turn_before_backend:
  assumes "trim (inputValue e) \<noteq> [] \<or> currentMedia s \<noteq> None"
  shows "\<exists>req rest.
      snd (handleSend e s)
        = StoreAppend (userMsg e s)
          # StorageWrite (localHistory s @ [userMsg e s])
              (setItemOk e (localHistory s @ [userMsg e s]))
          # BackendCall req # rest
    \<and> req_history req = map (\<lambda>m. (role m, parts m)) (localHistory s @ [userMsg e s])
    \<and> (\<forall>r. BackendCall r \<notin> set rest)
    \<and> (\<forall>cs. backend e req = Failed cs \<longrightarrow>
          rest = []
          \<and> localHistory (fst (handleSend e s)) = localHistory s @ [userMsg e s]
          \<and> storedHistory (fst (handleSend e s))
              = (if setItemOk e (localHistory s @ [userMsg e s])
                 then Some (localHistory s @ [userMsg e s]) else storedHistory s))"
  using assms
  by (auto simp add: handleSend_def Let_def saveMessage_def split: outcome.splits)

text \<open>
  C3, amended, at an input: the storage accepts the write and the stream fails after one
  fragment. The history and the storage hold the user turn alone, and three events have
  happened: the append, the write and the one backend call.
\<close>

theorem handleSend_user_turn_before_backend_witness:
  "trim (inputValue envFailing) = js ''hi''
   \<and> localHistory (fst (handleSend envFailing initialState)) = [hiMsg]
   \<and> storedHistory (fst (handleSend envFailing initialState)) = Some [hiMsg]
   \<and> length (snd (handleSend envFailing initialState)) = 3"
proof -
  have hyp: "trim (inputValue envFailing) \<noteq> [] \<or> currentMedia initialState \<noteq> None"
    by (simp add: envFailing_def trim_hi hi_ne)
  have u: "userMsg envFailing initialState = hiMsg"
    using hi_ne by (simp add: userMsg_def envFailing_def trim_hi initialState_def
        buildParts_def hiMsg_def)
  have b: "backend envFailing r
      = Failed [\<lparr>chunk_text = Some (js ''par''), chunk_grounding = None\<rparr>]" for r
    by (simp add: envFailing_def)
  have ok: "setItemOk envFailing h" for h
    by (simp add: envFailing_def)
  have l: "localHistory initialState = []"
    by (simp add: initialState_def)
  from handleSend_user_turn_before_backend [OF hyp] obtain req rest where
    ev: "snd (handleSend envFailing initialState)
        = StoreAppend (userMsg envFailing initialState)
          # StorageWrite (localHistory initialState @ [userMsg envFailing initialState])
              (setItemOk envFailing
                 (localHistory initialState @ [userMsg envFailing initialState]))
          # BackendCall req # rest"
    and f: "\<forall>cs. backend envFailing req = Failed cs \<longrightarrow>
          rest = []
          \<and> localHistory (fst (handleSend envFailing initialState))
              = localHistory initialState @ [userMsg envFailing initialState]
          \<and> storedHistory (fst (handleSend envFailing initialState))
              = (if setItemOk envFailing
                      (localHistory initialState @ [userMsg envFailing initialState])
                 then Some (localHistory initialState @ [userMsg envFailing initialState])
                 else storedHistory initialState)"
    by blast
  from f b [of req] have r: "rest = []"
    and h: "localHistory (fst (handleSend envFailing initialState))
              = localHistory initialState @ [userMsg envFailing initialState]"
    and st: "storedHistory (fst (handleSend envFailing initialState))
              = (if setItemOk envFailing
                      (localHistory initialState @ [userMsg envFailing initialState])
                 then Some (localHistory initialState @ [userMsg envFailing initialState])
                 else storedHistory initialState)"
    by blast+
  have t: "trim (inputValue envFailing) = js ''hi''"
    by (simp add: envFailing_def trim_hi)
  from t ev r h st show ?thesis
    by (simp add: u ok l)
qed

text \<open>
  \<open>handleSend\<close> keeps the last response content equal to the text of the last turn
  whenever that turn is a model turn, which is what \<open>getContextualActions\<close> reads as
  the content of the prior model turn.
\<close>

lemma handleSend_lastTurnInv:
  assumes "lastTurnInv s"
  shows "lastTurnInv (fst (handleSend e s))"
proof (cases "trim (inputValue e) = [] \<and> currentMedia s = None")
  case True
  then have "handleSend e s = (s, [])"
    by (simp add: handleSend_def)
  with assms show ?thesis by simp
next
  case False
  then show ?thesis
    by (auto simp add: handleSend_def Let_def saveMessage_def lastTurnInv_def userMsg_def
        split: outcome.split)
qed

end
